theory Spec2Isabelle
  imports Complex_Main "HOL-Library.Monad_Syntax"
begin

section \<open>Data model (types.ts and the state hooks of App)\<close>

text \<open>
  Strings are lists of code units; the accented letters of the Spanish messages
  (all below U+0100) are written as single characters, for instance \<open>CHR 0xF3\<close>
  for U+00F3, so that lengths agree with what \<^verbatim>\<open>substring\<close> counts.
  Numbers are integers, as the response schema declares \<^verbatim>\<open>hpChange\<close> to be.

  Field names follow the source; \<^verbatim>\<open>Choice.id\<close> and \<^verbatim>\<open>Choice.text\<close> are
  \<open>choice_id\<close> and \<open>choice_text\<close>, \<^verbatim>\<open>GameTurn.text\<close> is \<open>turn_text\<close>, and the
  \<^verbatim>\<open>choices\<close> of a story response is \<open>story_choices\<close>: the short names are taken
  by the identity function, by a keyword and by the field of a turn.
\<close>

record Choice =
  choice_id :: string
  choice_text :: string

record GameTurn =
  turn_text :: string
  imageUrl :: "string option"
  choices :: "Choice list"

record StoryEngineResponse =
  narrative :: string
  hpChange :: int
  inventoryAdd :: "string list"
  inventoryRemove :: "string list"
  visualDescription :: string
  isGameOver :: bool
  story_choices :: "Choice list"

datatype mode = START | PLAYING | GAMEOVER

text \<open>
  The state of the \<^verbatim>\<open>App\<close> component: one field per \<^verbatim>\<open>useState\<close> hook. The
  blocking \<^verbatim>\<open>alert\<close> of the browser is recorded in \<open>alerts\<close>, latest last.
\<close>

record app =
  mode :: mode
  theme :: string
  customTheme :: string
  suggestedThemes :: "string list"
  hp :: int
  inventory :: "string list"
  currentTurn :: "GameTurn option"
  isStoryLoading :: bool
  isImageLoading :: bool
  isTypingComplete :: bool
  isInventoryOpen :: bool
  alerts :: "string list"

definition INITIAL_HP :: int where
  "INITIAL_HP = 100"

text \<open>The state right after the component is mounted with the shuffled theme pool.\<close>

definition initialApp :: "string list \<Rightarrow> app" where
  "initialApp shuffled =
     \<lparr> mode = START, theme = [], customTheme = [],
       suggestedThemes = take 4 shuffled,
       hp = INITIAL_HP, inventory = [], currentTurn = None,
       isStoryLoading = False, isImageLoading = False, isTypingComplete = False,
       isInventoryOpen = False, alerts = [] \<rparr>"

section \<open>Turn bookkeeping inside processTurn\<close>

text \<open>Line 112: \<^verbatim>\<open>Math.min(100, Math.max(0, currentHp + storyData.hpChange))\<close>.\<close>

definition newHp :: "int \<Rightarrow> StoryEngineResponse \<Rightarrow> int" where
  "newHp currentHp storyData = min 100 (max 0 (currentHp + hpChange storyData))"

text \<open>
  Lines 116 to 118: the \<^verbatim>\<open>forEach\<close> over \<^verbatim>\<open>inventoryAdd\<close>, pushing an item
  when the list built so far does not include it.
\<close>

fun pushMissing :: "string list \<Rightarrow> string list \<Rightarrow> string list" where
  "pushMissing newInv [] = newInv"
| "pushMissing newInv (item # rest) =
     pushMissing (if item \<in> set newInv then newInv else newInv @ [item]) rest"

text \<open>Lines 114 to 118: copy, filter out the removed items, push the added ones.\<close>

definition newInv :: "string list \<Rightarrow> StoryEngineResponse \<Rightarrow> string list" where
  "newInv currentInv storyData =
     pushMissing
       (filter (\<lambda>item. item \<notin> set (inventoryRemove storyData)) currentInv)
       (inventoryAdd storyData)"

text \<open>
  The inventory as the specification words it: the retained items in their prior
  order, then the gained items that are not retained, each once, in the order of
  their first listing.
\<close>

definition firstOccurrences :: "'a list \<Rightarrow> 'a list" where
  "firstOccurrences xs = rev (remdups (rev xs))"

definition spec_newInventory :: "string list \<Rightarrow> string list \<Rightarrow> string list \<Rightarrow> string list" where
  "spec_newInventory items itemsLost itemsGained =
     (let retained = filter (\<lambda>x. x \<notin> set itemsLost) items
      in retained @ firstOccurrences (filter (\<lambda>x. x \<notin> set retained) itemsGained))"

section \<open>The story service (services/geminiService.ts)\<close>

text \<open>
  What \<^verbatim>\<open>JSON.parse\<close> returns: a JSON value, its numbers integers. An object
  is the list of its members, each key once, read by key.
\<close>

datatype js =
    JNull
  | JBool bool
  | JNum int
  | JStr string
  | JArr "js list"
  | JObj "(string \<times> js) list"

definition getProp :: "string \<Rightarrow> js \<Rightarrow> js option" where
  "getProp k v = (case v of JObj kvs \<Rightarrow> map_of kvs k | _ \<Rightarrow> None)"

fun asString :: "js \<Rightarrow> string option" where
  "asString (JStr s) = Some s"
| "asString _ = None"

fun asInteger :: "js \<Rightarrow> int option" where
  "asInteger (JNum n) = Some n"
| "asInteger _ = None"

fun asBoolean :: "js \<Rightarrow> bool option" where
  "asBoolean (JBool b) = Some b"
| "asBoolean _ = None"

fun asArray :: "(js \<Rightarrow> 'a option) \<Rightarrow> js \<Rightarrow> 'a list option" where
  "asArray f (JArr vs) = those (map f vs)"
| "asArray f _ = None"

text \<open>
  The item schema of \<^verbatim>\<open>choices\<close>: an object whose required members \<^verbatim>\<open>id\<close> and
  \<^verbatim>\<open>text\<close> are strings.
\<close>

definition asChoice :: "js \<Rightarrow> Choice option" where
  "asChoice v =
     do { i \<leftarrow> Option.bind (getProp ''id'' v) asString;
          t \<leftarrow> Option.bind (getProp ''text'' v) asString;
          Some \<lparr> choice_id = i, choice_text = t \<rparr> }"

text \<open>
  \<^verbatim>\<open>storySchema\<close>: an object with the seven required members, each of its declared
  type. A value that conforms is read as the \<^verbatim>\<open>StoryEngineResponse\<close> it encodes.
\<close>

definition storySchema :: "js \<Rightarrow> StoryEngineResponse option" where
  "storySchema v =
     do { n \<leftarrow> Option.bind (getProp ''narrative'' v) asString;
          h \<leftarrow> Option.bind (getProp ''hpChange'' v) asInteger;
          a \<leftarrow> Option.bind (getProp ''inventoryAdd'' v) (asArray asString);
          r \<leftarrow> Option.bind (getProp ''inventoryRemove'' v) (asArray asString);
          d \<leftarrow> Option.bind (getProp ''visualDescription'' v) asString;
          g \<leftarrow> Option.bind (getProp ''isGameOver'' v) asBoolean;
          c \<leftarrow> Option.bind (getProp ''choices'' v) (asArray asChoice);
          Some \<lparr> narrative = n, hpChange = h, inventoryAdd = a, inventoryRemove = r,
                 visualDescription = d, isGameOver = g, story_choices = c \<rparr> }"

text \<open>
  The outcome of \<^verbatim>\<open>ai.models.generateContent\<close>: the call throws (or its promise
  rejects), or it yields a response whose \<^verbatim>\<open>text\<close> may be undefined.
\<close>

datatype generateContent = Throws | Response "string option"

text \<open>The object literal returned from the \<^verbatim>\<open>catch\<close> block, lines 104 to 117.\<close>

definition fallbackNarrative :: string where
  "fallbackNarrative =
     ''La niebla se espesa y tu mente se nubla... (Error de conexi'' @ [CHR 0xF3]
     @ ''n con la IA, intenta recargar o elegir otra opci'' @ [CHR 0xF3] @ ''n).''"

definition fallback :: js where
  "fallback = JObj
     [ (''narrative'', JStr fallbackNarrative),
       (''hpChange'', JNum 0),
       (''inventoryAdd'', JArr []),
       (''inventoryRemove'', JArr []),
       (''visualDescription'', JStr ''foggy mystery void''),
       (''isGameOver'', JBool False),
       (''choices'', JArr
          [ JObj [(''id'', JStr ''retry''), (''text'', JStr ''Intentar de nuevo'')],
            JObj [(''id'', JStr ''wait''), (''text'', JStr ''Esperar un momento'')],
            JObj [(''id'', JStr ''run''), (''text'', JStr (''Huir en p'' @ [CHR 0xE1] @ ''nico''))],
            JObj [(''id'', JStr ''scream''), (''text'', JStr (''Gritar al vac'' @ [CHR 0xED] @ ''o''))] ]) ]"

text \<open>
  \<^verbatim>\<open>generateStorySegment\<close>, lines 85 to 118. The prompt built from the arguments
  only reaches the remote model, whose answer is the outcome given here, so the
  arguments are left out. \<open>JSON_parse\<close> is the built-in parser: \<open>None\<close> when it
  throws a syntax error. The text is tested for truthiness: undefined and the empty
  string throw inside the \<^verbatim>\<open>try\<close>. A parsed value is returned under a type
  assertion, which checks nothing at run time.
\<close>

definition generateStorySegment :: "(string \<Rightarrow> js option) \<Rightarrow> generateContent \<Rightarrow> js" where
  "generateStorySegment JSON_parse outcome =
     (case outcome of
        Throws \<Rightarrow> fallback
      | Response None \<Rightarrow> fallback
      | Response (Some t) \<Rightarrow>
          if t = [] then fallback
          else (case JSON_parse t of None \<Rightarrow> fallback | Some v \<Rightarrow> v))"

text \<open>
  \<^verbatim>\<open>generateSceneImage\<close>, lines 121 to 145. A response is the list of the parts of
  its first candidate (empty when any link of the optional chain is undefined); a
  part is its inline data, if it has one. The promise never rejects.
\<close>

datatype imageContent = ImageThrows | ImageParts "string option list"

fun firstInlineData :: "string option list \<Rightarrow> string option" where
  "firstInlineData [] = None"
| "firstInlineData (None # parts) = firstInlineData parts"
| "firstInlineData (Some d # parts) = Some (''data:image/png;base64,'' @ d)"

definition generateSceneImage :: "imageContent \<Rightarrow> string option" where
  "generateSceneImage outcome =
     (case outcome of ImageThrows \<Rightarrow> None | ImageParts parts \<Rightarrow> firstInlineData parts)"

text \<open>
  \<^verbatim>\<open>String.prototype.trim\<close> on code units below U+0100: tab, line feed, vertical
  tab, form feed, carriage return, space and no-break space are white space.
\<close>

definition isWhiteSpace :: "char \<Rightarrow> bool" where
  "isWhiteSpace c \<longleftrightarrow>
     c \<in> {CHR 0x09, CHR 0x0A, CHR 0x0B, CHR 0x0C, CHR 0x0D, CHR 0x20, CHR 0xA0}"

definition trim :: "string \<Rightarrow> string" where
  "trim t = rev (dropWhile isWhiteSpace (rev (dropWhile isWhiteSpace t)))"

section \<open>The session controller (the App component)\<close>

text \<open>
  A handler of the component is a function from the state to the state; the
  state setters it calls are applied in the order written. An asynchronous
  handler is cut at each \<^verbatim>\<open>await\<close>: the part before it returns the call that is
  awaited, and the part after it takes the awaited value.
\<close>

text \<open>The arguments of one \<^verbatim>\<open>processTurn\<close> call, kept by its closure across the await.\<close>

record turnArgs =
  currentTheme :: string
  currentHp :: int
  currentInv :: "string list"
  choiceText :: "string option"
  historyCtx :: string

text \<open>Line 70.\<close>

definition areChoicesVisible :: "app \<Rightarrow> bool" where
  "areChoicesVisible s \<longleftrightarrow> \<not> isStoryLoading s \<and> isTypingComplete s \<and> \<not> isImageLoading s"

text \<open>\<^verbatim>\<open>processTurn\<close>, lines 104 to 106: the setters before the story is awaited.\<close>

definition processTurn_begin :: "app \<Rightarrow> app" where
  "processTurn_begin s =
     s\<lparr> isStoryLoading := True, isTypingComplete := False, isImageLoading := False \<rparr>"

text \<open>
  \<^verbatim>\<open>processTurn\<close>, lines 112 to 157, on a story of the declared type. The second
  component is the prompt of the image request issued, if one is.
\<close>

definition processTurn_body ::
    "int \<Rightarrow> string list \<Rightarrow> StoryEngineResponse \<Rightarrow> app \<Rightarrow> app \<times> string option" where
  "processTurn_body hp0 inv0 storyData s =
     (let nHp = newHp hp0 storyData;
          nInv = newInv inv0 storyData;
          s1 = s\<lparr> hp := nHp, inventory := nInv \<rparr>
      in if isGameOver storyData \<or> nHp \<le> 0 then
           (s1\<lparr> mode := GAMEOVER,
                currentTurn := Some \<lparr> turn_text = narrative storyData, imageUrl = None,
                                       choices = [] \<rparr>,
                isStoryLoading := False \<rparr>, None)
         else
           (let s2 = s1\<lparr> currentTurn := Some \<lparr> turn_text = narrative storyData,
                                                 imageUrl = None,
                                                 choices = story_choices storyData \<rparr>,
                          isStoryLoading := False \<rparr>
            in if visualDescription storyData \<noteq> [] then
                 (s2\<lparr> isImageLoading := True \<rparr>, Some (visualDescription storyData))
               else (s2, None)))"

text \<open>\<^verbatim>\<open>processTurn\<close>, lines 159 to 164: the \<^verbatim>\<open>catch\<close> block.\<close>

definition criticalError :: string where
  "criticalError =
     ''Hubo un error cr'' @ [CHR 0xED] @ ''tico conectando con el mundo. Intenta de nuevo.''"

definition processTurn_catch :: "app \<Rightarrow> app" where
  "processTurn_catch s =
     s\<lparr> mode := START, alerts := alerts s @ [criticalError], isStoryLoading := False \<rparr>"

text \<open>
  Where \<^verbatim>\<open>processTurn\<close> can throw after the await. The story value is whatever
  \<^verbatim>\<open>JSON.parse\<close> produced, and the body reads it as follows.
  \<^item> Line 112 reads \<^verbatim>\<open>hpChange\<close>: a TypeError on \<^verbatim>\<open>null\<close>; on any other value
    a missing member reads as undefined. Adding it to the health converts it to a
    primitive, which throws a TypeError for an object that has a member named
    \<^verbatim>\<open>toString\<close> (a member parsed from JSON is never callable) and for an array
    that holds such an object, its elements being joined.
  \<^item> Line 115 calls \<^verbatim>\<open>inventoryRemove.includes\<close> once for each item of the
    inventory: a TypeError unless the member is an array or a string.
  \<^item> Line 116 calls \<^verbatim>\<open>inventoryAdd.forEach\<close>: a TypeError unless the member is
    an array.
  The lines after 116 read members and call setters, and nothing there throws;
  \<^verbatim>\<open>generateStorySegment\<close> and \<^verbatim>\<open>generateSceneImage\<close> catch what their remote
  calls throw. So every exception of the \<^verbatim>\<open>try\<close> block is thrown before line
  120, the first setter of the body.
\<close>

fun toPrimitiveThrows :: "js \<Rightarrow> bool" where
  "toPrimitiveThrows (JObj kvs) \<longleftrightarrow> ''toString'' \<in> fst ` set kvs"
| "toPrimitiveThrows (JArr vs) \<longleftrightarrow> (\<exists>v \<in> set vs. toPrimitiveThrows v)"
| "toPrimitiveThrows _ \<longleftrightarrow> False"

definition turnThrows :: "string list \<Rightarrow> js \<Rightarrow> bool" where
  "turnThrows inv0 v \<longleftrightarrow>
     v = JNull
     \<or> (case getProp ''hpChange'' v of Some x \<Rightarrow> toPrimitiveThrows x | None \<Rightarrow> False)
     \<or> (inv0 \<noteq> [] \<and>
          (case getProp ''inventoryRemove'' v of
             Some (JArr _) \<Rightarrow> False | Some (JStr _) \<Rightarrow> False | _ \<Rightarrow> True))
     \<or> (case getProp ''inventoryAdd'' v of Some (JArr _) \<Rightarrow> False | _ \<Rightarrow> True)"

section \<open>The turn on values that are not of the declared type\<close>

text \<open>
  What lines 112 to 157 store when they run on an arbitrary JSON value without
  throwing. The turn was called with a health and an inventory of the declared
  types; what it stores need not be.
\<close>

text \<open>
  A JavaScript number: not a number, a finite double (as the rational it is), or
  an infinity.
\<close>

datatype number = NaN | Finite rat | PlusInfinity | MinusInfinity

text \<open>\<^verbatim>\<open>Math.min(100, Math.max(0, x))\<close> and \<^verbatim>\<open>x <= 0\<close>.\<close>

fun clampHealth :: "number \<Rightarrow> number" where
  "clampHealth NaN = NaN"
| "clampHealth (Finite q) = Finite (min 100 (max 0 q))"
| "clampHealth PlusInfinity = Finite 100"
| "clampHealth MinusInfinity = Finite 0"

fun notPositive :: "number \<Rightarrow> bool" where
  "notPositive NaN \<longleftrightarrow> False"
| "notPositive (Finite q) \<longleftrightarrow> q \<le> 0"
| "notPositive PlusInfinity \<longleftrightarrow> False"
| "notPositive MinusInfinity \<longleftrightarrow> True"

text \<open>
  The decimal text of an integer, which is what \<^verbatim>\<open>String\<close> gives for an integer
  below \<open>10\<^sup>2\<^sup>1\<close> in size.
\<close>

fun digits :: "nat \<Rightarrow> string" where
  "digits n =
     (if n < 10 then [''0123456789'' ! n]
      else digits (n div 10) @ [''0123456789'' ! (n mod 10)])"

declare digits.simps [simp del]

definition decimal :: "int \<Rightarrow> string" where
  "decimal n = (if n < 0 then CHR ''-'' # digits (nat (- n)) else digits (nat n))"

text \<open>
  The text of a JSON value whose conversion does not throw: an array is its
  elements joined by commas, \<^verbatim>\<open>null\<close> among them as the empty text.
\<close>

fun joined :: "string list \<Rightarrow> string" where
  "joined [] = []"
| "joined [t] = t"
| "joined (t # u # ts) = t @ '','' @ joined (u # ts)"

fun toText :: "js \<Rightarrow> string" where
  "toText JNull = ''null''"
| "toText (JBool b) = (if b then ''true'' else ''false'')"
| "toText (JNum n) = decimal n"
| "toText (JStr t) = t"
| "toText (JArr vs) = joined (map (\<lambda>v. if v = JNull then [] else toText v) vs)"
| "toText (JObj kvs) = ''[object Object]''"

text \<open>
  The conversion of a text to a number, as \<^verbatim>\<open>Math.max\<close> applies it: white
  space at both ends is dropped; the empty text is 0; a decimal literal may have a
  sign, a fraction and an exponent, or be \<^verbatim>\<open>Infinity\<close>; a literal in base 16, 8 or
  2 starts with \<^verbatim>\<open>0x\<close>, \<^verbatim>\<open>0o\<close> or \<^verbatim>\<open>0b\<close> and has no sign; any other text is
  not a number. The value is the exact one of the literal, where the code holds
  the nearest double: a literal that is not an integer counts as none here, also
  when the nearest double is one.
\<close>

definition digitOf :: "char \<Rightarrow> nat option" where
  "digitOf c = map_of (zip ''0123456789abcdef'' [0..<16] @ zip ''ABCDEF'' [10..<16]) c"

definition isDecimalDigit :: "char \<Rightarrow> bool" where
  "isDecimalDigit c \<longleftrightarrow> c \<in> set ''0123456789''"

fun digitsIn :: "nat \<Rightarrow> nat option \<Rightarrow> string \<Rightarrow> nat option" where
  "digitsIn base acc [] = acc"
| "digitsIn base acc (c # cs) =
     (case (acc, digitOf c) of
        (Some a, Some d) \<Rightarrow> if d < base then digitsIn base (Some (a * base + d)) cs else None
      | _ \<Rightarrow> None)"

definition numberIn :: "nat \<Rightarrow> string \<Rightarrow> nat option" where
  "numberIn base cs = (if cs = [] then None else digitsIn base (Some 0) cs)"

definition nonDecimalLiteral :: "string \<Rightarrow> nat option" where
  "nonDecimalLiteral u =
     (case u of
        c # x # ds \<Rightarrow>
          if c \<noteq> CHR ''0'' then None
          else if x = CHR ''x'' \<or> x = CHR ''X'' then numberIn 16 ds
          else if x = CHR ''o'' \<or> x = CHR ''O'' then numberIn 8 ds
          else if x = CHR ''b'' \<or> x = CHR ''B'' then numberIn 2 ds
          else None
      | _ \<Rightarrow> None)"

definition exponentPart :: "string \<Rightarrow> int option" where
  "exponentPart u =
     (case u of
        [] \<Rightarrow> Some 0
      | c # r \<Rightarrow>
          if c = CHR ''e'' \<or> c = CHR ''E'' then
            (case r of
               [] \<Rightarrow> None
             | d # ds \<Rightarrow>
                 if d = CHR ''+'' then map_option int (numberIn 10 ds)
                 else if d = CHR ''-'' then map_option (\<lambda>n. - int n) (numberIn 10 ds)
                 else map_option int (numberIn 10 (d # ds)))
          else None)"

definition scaled :: "string \<Rightarrow> int \<Rightarrow> rat" where
  "scaled ds e =
     of_nat (case digitsIn 10 (Some 0) ds of Some n \<Rightarrow> n | None \<Rightarrow> 0)
     * (if 0 \<le> e then 10 ^ nat e else 1 / 10 ^ nat (- e))"

definition unsignedDecimal :: "string \<Rightarrow> number" where
  "unsignedDecimal u =
     (if u = ''Infinity'' then PlusInfinity
      else
        (let whole = takeWhile isDecimalDigit u; r1 = dropWhile isDecimalDigit u
         in case r1 of
              c # r \<Rightarrow>
                if c = CHR ''.'' then
                  (let fraction = takeWhile isDecimalDigit r; r2 = dropWhile isDecimalDigit r
                   in if whole = [] \<and> fraction = [] then NaN
                      else (case exponentPart r2 of
                              None \<Rightarrow> NaN
                            | Some e \<Rightarrow> Finite (scaled (whole @ fraction) (e - int (length fraction)))))
                else if whole = [] then NaN
                else (case exponentPart r1 of None \<Rightarrow> NaN | Some e \<Rightarrow> Finite (scaled whole e))
            | [] \<Rightarrow> if whole = [] then NaN else Finite (scaled whole 0)))"

fun negated :: "number \<Rightarrow> number" where
  "negated NaN = NaN"
| "negated (Finite q) = Finite (- q)"
| "negated PlusInfinity = MinusInfinity"
| "negated MinusInfinity = PlusInfinity"

definition stringToNumber :: "string \<Rightarrow> number" where
  "stringToNumber t =
     (let u = trim t
      in case u of
           [] \<Rightarrow> Finite 0
         | c # r \<Rightarrow>
             (case nonDecimalLiteral u of
                Some n \<Rightarrow> Finite (of_nat n)
              | None \<Rightarrow>
                  if c = CHR ''+'' then unsignedDecimal r
                  else if c = CHR ''-'' then negated (unsignedDecimal r)
                  else unsignedDecimal u))"

text \<open>
  Line 112 on a health of the declared type. Undefined gives NaN; \<^verbatim>\<open>null\<close>, a
  boolean and a number are added as numbers; a string, an array and an object are
  appended as text to the text of the health, and the result is converted to a
  number.
\<close>

definition healthWritten :: "int \<Rightarrow> js option \<Rightarrow> number" where
  "healthWritten h x =
     clampHealth
       (case x of
          None \<Rightarrow> NaN
        | Some JNull \<Rightarrow> Finite (of_int h)
        | Some (JBool b) \<Rightarrow> Finite (of_int (h + (if b then 1 else 0)))
        | Some (JNum n) \<Rightarrow> Finite (of_int (h + n))
        | Some y \<Rightarrow> stringToNumber (decimal h @ toText y))"

text \<open>
  \<^verbatim>\<open>Array.prototype.includes\<close> on values parsed from JSON: null, booleans,
  numbers and strings are compared by value; an object or an array parsed from the
  payload is a fresh one, equal to no element.
\<close>

fun isPrimitive :: "js \<Rightarrow> bool" where
  "isPrimitive (JArr vs) \<longleftrightarrow> False"
| "isPrimitive (JObj kvs) \<longleftrightarrow> False"
| "isPrimitive _ \<longleftrightarrow> True"

definition arrayIncludes :: "js list \<Rightarrow> js \<Rightarrow> bool" where
  "arrayIncludes xs x \<longleftrightarrow> isPrimitive x \<and> x \<in> set xs"

text \<open>\<^verbatim>\<open>String.prototype.includes\<close>: the second text occurs in the first.\<close>

definition stringIncludes :: "string \<Rightarrow> string \<Rightarrow> bool" where
  "stringIncludes t u \<longleftrightarrow> list_ex (\<lambda>i. take (length u) (drop i t) = u) [0..<Suc (length t)]"

text \<open>Lines 114 and 115 on an inventory of strings, and lines 116 to 118.\<close>

definition keptItems :: "string list \<Rightarrow> js option \<Rightarrow> string list" where
  "keptItems inv0 removed =
     (case removed of
        Some (JArr rs) \<Rightarrow> filter (\<lambda>item. \<not> arrayIncludes rs (JStr item)) inv0
      | Some (JStr r) \<Rightarrow> filter (\<lambda>item. \<not> stringIncludes r item) inv0
      | _ \<Rightarrow> inv0)"

fun pushMissingValues :: "js list \<Rightarrow> js list \<Rightarrow> js list" where
  "pushMissingValues pushed [] = pushed"
| "pushMissingValues pushed (item # rest) =
     pushMissingValues (if arrayIncludes pushed item then pushed else pushed @ [item]) rest"

text \<open>The truthiness of a member: undefined, null, false, 0 and the empty string are falsy.\<close>

fun truthy :: "js option \<Rightarrow> bool" where
  "truthy None \<longleftrightarrow> False"
| "truthy (Some JNull) \<longleftrightarrow> False"
| "truthy (Some (JBool b)) \<longleftrightarrow> b"
| "truthy (Some (JNum n)) \<longleftrightarrow> n \<noteq> 0"
| "truthy (Some (JStr t)) \<longleftrightarrow> t \<noteq> []"
| "truthy (Some _) \<longleftrightarrow> True"

text \<open>
  What the body stores: the health and the inventory; whether the mode is set to
  GAMEOVER; the text and the choices of the turn published (undefined when the
  member is missing); and the prompt of the image request, if one is issued.
\<close>

record turnWrites =
  healthStored :: number
  inventoryStored :: "js list"
  gameOverStored :: bool
  textStored :: "js option"
  choicesStored :: "js option"
  imageRequested :: "js option"

definition processTurn_writes :: "turnArgs \<Rightarrow> js \<Rightarrow> turnWrites" where
  "processTurn_writes args v =
     (let nHp = healthWritten (currentHp args) (getProp ''hpChange'' v);
          nInv = pushMissingValues
                   (map JStr (keptItems (currentInv args) (getProp ''inventoryRemove'' v)))
                   (case getProp ''inventoryAdd'' v of Some (JArr items) \<Rightarrow> items | _ \<Rightarrow> []);
          over = (truthy (getProp ''isGameOver'' v) \<or> notPositive nHp)
      in \<lparr> healthStored = nHp, inventoryStored = nInv, gameOverStored = over,
           textStored = getProp ''narrative'' v,
           choicesStored = (if over then Some (JArr []) else getProp ''choices'' v),
           imageRequested =
             (if \<not> over \<and> truthy (getProp ''visualDescription'' v)
              then getProp ''visualDescription'' v else None) \<rparr>)"

text \<open>
  The setters of lines 120 to 147, on values of the declared types: an integer
  health, items and text that are strings, choices that are objects with a string
  \<^verbatim>\<open>id\<close> and a string \<^verbatim>\<open>text\<close>, and a prompt that is a string. The state
  \<open>app\<close> holds no other values: the result is \<open>None\<close> on them.
\<close>

fun asHealth :: "number \<Rightarrow> int option" where
  "asHealth (Finite q) = (if of_int \<lfloor>q\<rfloor> = q then Some \<lfloor>q\<rfloor> else None)"
| "asHealth _ = None"

definition storeWrites :: "turnWrites \<Rightarrow> app \<Rightarrow> (app \<times> string option) option" where
  "storeWrites w s =
     do { h \<leftarrow> asHealth (healthStored w);
          items \<leftarrow> those (map asString (inventoryStored w));
          t \<leftarrow> Option.bind (textStored w) asString;
          cs \<leftarrow> Option.bind (choicesStored w) (asArray asChoice);
          let s1 = s\<lparr> hp := h, inventory := items \<rparr>;
          let s2 = (if gameOverStored w then s1\<lparr> mode := GAMEOVER \<rparr> else s1)
                     \<lparr> currentTurn := Some \<lparr> turn_text = t, imageUrl = None, choices = cs \<rparr>,
                       isStoryLoading := False \<rparr>;
          (case imageRequested w of
             None \<Rightarrow> Some (s2, None)
           | Some d \<Rightarrow> map_option (\<lambda>prompt. (s2\<lparr> isImageLoading := True \<rparr>, Some prompt))
                         (asString d)) }"

text \<open>
  \<^verbatim>\<open>processTurn\<close> after the await, on the value that \<^verbatim>\<open>generateStorySegment\<close>
  returned, in a state of the declared types. When the body throws, no setter of
  it has run and the \<^verbatim>\<open>catch\<close> block takes over. Otherwise the body runs to its
  end and stores what \<open>processTurn_writes\<close> says; the result is \<open>None\<close> when
  a value that it stores, or the prompt that it asks an image for, is not of the
  declared types (a health that is not an integer, a turn without text, an item
  that is not a string).
\<close>

definition processTurn_resume ::
    "turnArgs \<Rightarrow> js \<Rightarrow> app \<Rightarrow> (app \<times> string option) option" where
  "processTurn_resume args v s =
     (if turnThrows (currentInv args) v then Some (processTurn_catch s, None)
      else storeWrites (processTurn_writes args v) s)"

section \<open>The other handlers of the component\<close>

text \<open>
  The continuations attached to the image promise, lines 149 to 156: \<^verbatim>\<open>then\<close> with
  the URL (undefined when no image was produced) and \<^verbatim>\<open>catch\<close>.
\<close>

definition imageResolved :: "string option \<Rightarrow> app \<Rightarrow> app" where
  "imageResolved url s =
     s\<lparr> currentTurn := (case currentTurn s of
                           Some prev \<Rightarrow> Some (prev\<lparr> imageUrl := url \<rparr>)
                         | None \<Rightarrow> None),
        isImageLoading := False \<rparr>"

definition imageRejected :: "app \<Rightarrow> app" where
  "imageRejected s = s\<lparr> isImageLoading := False \<rparr>"

text \<open>
  \<^verbatim>\<open>handleStartGame\<close>, lines 79 to 93, up to the await inside \<^verbatim>\<open>processTurn\<close>.
\<close>

definition handleStartGame :: "app \<Rightarrow> app \<times> turnArgs option" where
  "handleStartGame s =
     (let selectedTheme = (if trim (customTheme s) \<noteq> [] then trim (customTheme s) else theme s)
      in if selectedTheme = [] then (s, None)
         else
           (processTurn_begin
              (s\<lparr> mode := PLAYING, isStoryLoading := True, hp := INITIAL_HP, inventory := [],
                  customTheme := [], currentTurn := None, isTypingComplete := False,
                  isImageLoading := False \<rparr>),
            Some \<lparr> currentTheme = selectedTheme, currentHp = INITIAL_HP, currentInv = [],
                   choiceText = None, historyCtx = ''Inicio de la historia'' \<rparr>))"

text \<open>\<^verbatim>\<open>handleChoice\<close>, lines 167 to 180, up to the await inside \<^verbatim>\<open>processTurn\<close>.\<close>

definition handleChoice :: "Choice \<Rightarrow> app \<Rightarrow> app \<times> turnArgs option" where
  "handleChoice choice s =
     (case currentTurn s of
        None \<Rightarrow> (s, None)
      | Some turn \<Rightarrow>
          (processTurn_begin s,
           Some \<lparr> currentTheme = (if theme s \<noteq> [] then theme s else customTheme s),
                  currentHp = hp s, currentInv = inventory s,
                  choiceText = Some (choice_text choice),
                  historyCtx = ''Anteriormente: '' @ take 200 (turn_text turn) @ ''...'' \<rparr>))"

text \<open>
  \<^verbatim>\<open>resetGame\<close>, lines 182 to 193; \<open>shuffled\<close> is the theme pool as the random
  sort left it.
\<close>

definition resetGame :: "string list \<Rightarrow> app \<Rightarrow> app" where
  "resetGame shuffled s =
     s\<lparr> mode := START, hp := INITIAL_HP, inventory := [], currentTurn := None,
        isStoryLoading := False, isImageLoading := False, isTypingComplete := False,
        suggestedThemes := take 4 shuffled \<rparr>"

text \<open>\<^verbatim>\<open>onTextComplete\<close>, lines 195 to 197.\<close>

definition onTextComplete :: "app \<Rightarrow> app" where
  "onTextComplete s = s\<lparr> isTypingComplete := True \<rparr>"

text \<open>The theme buttons and the free-text input of the start screen, lines 264 and 282.\<close>

definition pickTheme :: "string \<Rightarrow> app \<Rightarrow> app" where
  "pickTheme t s = s\<lparr> theme := t, customTheme := t \<rparr>"

definition typeTheme :: "string \<Rightarrow> app \<Rightarrow> app" where
  "typeTheme t s = s\<lparr> customTheme := t \<rparr>"

text \<open>
  The JSON value that a response of the declared type is at run time: what the
  type assertion in \<^verbatim>\<open>generateStorySegment\<close> takes the parsed payload to be.
\<close>

definition choiceJson :: "Choice \<Rightarrow> js" where
  "choiceJson c = JObj [(''id'', JStr (choice_id c)), (''text'', JStr (choice_text c))]"

definition storyJson :: "StoryEngineResponse \<Rightarrow> js" where
  "storyJson r = JObj
     [ (''narrative'', JStr (narrative r)),
       (''hpChange'', JNum (hpChange r)),
       (''inventoryAdd'', JArr (map JStr (inventoryAdd r))),
       (''inventoryRemove'', JArr (map JStr (inventoryRemove r))),
       (''visualDescription'', JStr (visualDescription r)),
       (''isGameOver'', JBool (isGameOver r)),
       (''choices'', JArr (map choiceJson (story_choices r))) ]"

section \<open>Sessions as sequences of events\<close>

text \<open>
  The states of the declared types that a session can be in, with the
  \<^verbatim>\<open>processTurn\<close> calls whose story is still awaited. Every handler may run at
  any time, which includes all the orders in which the rendered buttons and the two
  services let them run. An awaited story arrives with any JSON value on which the
  turn throws or stores values of the declared types; a turn that stores other
  values takes the component to a state that \<open>app\<close> does not hold.
\<close>

fun awaited :: "turnArgs option \<Rightarrow> turnArgs list" where
  "awaited None = []"
| "awaited (Some args) = [args]"

inductive session :: "app \<Rightarrow> turnArgs list \<Rightarrow> bool" where
  mounted: "session (initialApp shuffled) []"
| themePicked: "session s calls \<Longrightarrow> session (pickTheme t s) calls"
| themeTyped: "session s calls \<Longrightarrow> session (typeTheme t s) calls"
| gameStarted:
    "session s calls \<Longrightarrow> handleStartGame s = (s', call) \<Longrightarrow> session s' (calls @ awaited call)"
| choiceMade:
    "session s calls \<Longrightarrow> handleChoice c s = (s', call) \<Longrightarrow> session s' (calls @ awaited call)"
| storyArrived:
    "session s calls \<Longrightarrow> args \<in> set calls \<Longrightarrow> processTurn_resume args v s = Some (s', req) \<Longrightarrow>
       session s' (remove1 args calls)"
| imageArrived: "session s calls \<Longrightarrow> session (imageResolved url s) calls"
| imageFailed: "session s calls \<Longrightarrow> session (imageRejected s) calls"
| textRevealed: "session s calls \<Longrightarrow> session (onTextComplete s) calls"
| gameReset: "session s calls \<Longrightarrow> session (resetGame shuffled s) calls"

section \<open>Concrete sessions\<close>

text \<open>The inputs of the scenarios that the theorems below are evaluated on.\<close>

definition shuffledPool :: "string list" where
  "shuffledPool =
     [''Steampunk'', ''Samurai Feudal'', ''Guerra de IAs'', ''Vampiros Modernos'',
      ''Cyberpunk 2077'', ''Apocalipsis Zombie'']"

definition fourChoices :: "Choice list" where
  "fourChoices =
     [ \<lparr> choice_id = ''1'', choice_text = ''Avanzar'' \<rparr>,
       \<lparr> choice_id = ''2'', choice_text = ''Retroceder'' \<rparr>,
       \<lparr> choice_id = ''3'', choice_text = ''Observar'' \<rparr>,
       \<lparr> choice_id = ''4'', choice_text = ''Descansar'' \<rparr> ]"

definition torchStory :: StoryEngineResponse where
  "torchStory =
     \<lparr> narrative = ''Una trampa te hiere, pero encuentras una antorcha.'', hpChange = - 30,
       inventoryAdd = [''torch''], inventoryRemove = [],
       visualDescription = ''a dark cave lit by a torch'', isGameOver = False,
       story_choices = fourChoices \<rparr>"

definition dojoStory :: StoryEngineResponse where
  "dojoStory =
     \<lparr> narrative = ''Entras al dojo y todos te miran.'', hpChange = 0,
       inventoryAdd = [''katana''], inventoryRemove = [],
       visualDescription = ''a dojo at dusk'', isGameOver = False,
       story_choices = fourChoices \<rparr>"

definition woundStory :: StoryEngineResponse where
  "woundStory =
     \<lparr> narrative = ''La herida es demasiado profunda.'', hpChange = - 25,
       inventoryAdd = [], inventoryRemove = [],
       visualDescription = ''a fallen hero'', isGameOver = False,
       story_choices = fourChoices \<rparr>"

text \<open>A session started on a suggested theme, its first story awaited.\<close>

definition started :: "string \<Rightarrow> app \<Rightarrow> app" where
  "started t s = fst (handleStartGame (pickTheme t s))"

text \<open>
  The first turn of a session is published and its image requested; the user
  resets and starts a second session, whose first turn is published in turn.
\<close>

definition caveSession :: app where
  "caveSession =
     fst (processTurn_body INITIAL_HP [] torchStory
            (started ''Steampunk'' (initialApp shuffledPool)))"

definition dojoSession :: app where
  "dojoSession =
     fst (processTurn_body INITIAL_HP [] dojoStory
            (started ''Samurai Feudal'' (resetGame shuffledPool caveSession)))"

text \<open>
  The cave session once its image request has come back empty and its text has
  been revealed, and the arguments that choosing the first option passes on.
\<close>

definition settledCave :: app where
  "settledCave = onTextComplete (imageResolved None caveSession)"

definition choiceArgs :: turnArgs where
  "choiceArgs =
     \<lparr> currentTheme = ''Steampunk'', currentHp = 70, currentInv = [''torch''],
       choiceText = Some ''Avanzar'',
       historyCtx = ''Anteriormente: '' @ narrative torchStory @ ''...'' \<rparr>"

text \<open>The arguments of the first turn of a game started on a theme.\<close>

definition firstArgs :: "string \<Rightarrow> turnArgs" where
  "firstArgs t =
     \<lparr> currentTheme = t, currentHp = INITIAL_HP, currentInv = [],
       choiceText = None, historyCtx = ''Inicio de la historia'' \<rparr>"

text \<open>
  A payload that parses and has an \<^verbatim>\<open>inventoryAdd\<close> array but no
  \<^verbatim>\<open>inventoryRemove\<close>.
\<close>

definition keyPayload :: js where
  "keyPayload = JObj
     [ (''narrative'', JStr ''Encuentras una llave.''),
       (''hpChange'', JNum (- 5)),
       (''inventoryAdd'', JArr [JStr ''key'']),
       (''visualDescription'', JStr ''a rusty key''),
       (''isGameOver'', JBool False),
       (''choices'', JArr (map choiceJson fourChoices)) ]"

text \<open>The image that the request of the cave turn produces.\<close>

definition caveImage :: "string option" where
  "caveImage = generateSceneImage (ImageParts [None, Some ''Q0FWRQ==''])"

text \<open>What every state of a session satisfies, together with the awaited calls.\<close>

definition wellKept :: "app \<Rightarrow> turnArgs list \<Rightarrow> bool" where
  "wellKept s calls \<longleftrightarrow>
     distinct (inventory s) \<and> 0 \<le> hp s \<and> hp s \<le> 100
     \<and> (\<forall>args \<in> set calls.
           distinct (currentInv args) \<and> 0 \<le> currentHp args \<and> currentHp args \<le> 100)"

section \<open>The inventory loop\<close>

lemma firstOccurrences_Nil: "firstOccurrences [] = []"
  by (simp add: firstOccurrences_def)

lemma remdups_snoc:
  "remdups (ys @ [x]) = filter (\<lambda>y. y \<noteq> x) (remdups ys) @ [x]"
  by (induction ys) auto

lemma firstOccurrences_Cons:
  "firstOccurrences (x # xs) = x # filter (\<lambda>y. y \<noteq> x) (firstOccurrences xs)"
  by (simp add: firstOccurrences_def remdups_snoc rev_filter)

lemma set_firstOccurrences: "set (firstOccurrences xs) = set xs"
  by (simp add: firstOccurrences_def)

lemma distinct_firstOccurrences: "distinct (firstOccurrences xs)"
  by (simp add: firstOccurrences_def)

lemma firstOccurrences_filter:
  "firstOccurrences (filter P xs) = filter P (firstOccurrences xs)"
  by (simp add: firstOccurrences_def remdups_filter rev_filter)

lemma pushMissing_eq:
  "pushMissing acc xs = acc @ firstOccurrences (filter (\<lambda>x. x \<notin> set acc) xs)"
proof (induction xs arbitrary: acc)
  case Nil
  show ?case by (simp add: firstOccurrences_Nil)
next
  case (Cons x xs)
  show ?case
  proof (cases "x \<in> set acc")
    case True
    then show ?thesis using Cons.IH [of acc] by simp
  next
    case False
    have "filter (\<lambda>y. y \<notin> set (acc @ [x])) xs = filter (\<lambda>y. y \<noteq> x) (filter (\<lambda>y. y \<notin> set acc) xs)"
      by (induction xs) auto
    then show ?thesis
      using False Cons.IH [of "acc @ [x]"]
      by (simp add: firstOccurrences_Cons firstOccurrences_filter)
  qed
qed


lemma newInv_spec:
  "newInv items r = spec_newInventory items (inventoryRemove r) (inventoryAdd r)"
  by (simp add: newInv_def spec_newInventory_def pushMissing_eq)

lemma set_newInv:
  "set (newInv items r) = (set items - set (inventoryRemove r)) \<union> set (inventoryAdd r)"
  by (auto simp: newInv_def pushMissing_eq set_firstOccurrences)

lemma distinct_newInv: "distinct items \<Longrightarrow> distinct (newInv items r)"
  by (auto simp: newInv_def pushMissing_eq set_firstOccurrences distinct_firstOccurrences)

lemma filter_absent:
  "x \<notin> set items \<Longrightarrow> filter (\<lambda>item. item \<noteq> x \<and> P item) items = filter P items"
  by (induction items) auto

section \<open>The concrete sessions, evaluated\<close>

lemmas session_defs =
  started_def handleStartGame_def pickTheme_def initialApp_def resetGame_def
  processTurn_begin_def processTurn_body_def Let_def trim_def isWhiteSpace_def
  INITIAL_HP_def newHp_def newInv_def shuffledPool_def

lemma caveSession_eq:
  "caveSession =
     \<lparr> mode = PLAYING, theme = ''Steampunk'', customTheme = [],
       suggestedThemes = take 4 shuffledPool,
       hp = 70, inventory = [''torch''],
       currentTurn = Some \<lparr> turn_text = narrative torchStory, imageUrl = None,
                              choices = fourChoices \<rparr>,
       isStoryLoading = False, isImageLoading = True, isTypingComplete = False,
       isInventoryOpen = False, alerts = [] \<rparr>"
  by (simp add: caveSession_def session_defs torchStory_def)

lemma dojoSession_eq:
  "dojoSession =
     \<lparr> mode = PLAYING, theme = ''Samurai Feudal'', customTheme = [],
       suggestedThemes = take 4 shuffledPool,
       hp = 100, inventory = [''katana''],
       currentTurn = Some \<lparr> turn_text = narrative dojoStory, imageUrl = None,
                              choices = fourChoices \<rparr>,
       isStoryLoading = False, isImageLoading = True, isTypingComplete = False,
       isInventoryOpen = False, alerts = [] \<rparr>"
  by (simp add: dojoSession_def caveSession_eq session_defs dojoStory_def)

lemma settledCave_eq:
  "settledCave =
     \<lparr> mode = PLAYING, theme = ''Steampunk'', customTheme = [],
       suggestedThemes = take 4 shuffledPool,
       hp = 70, inventory = [''torch''],
       currentTurn = Some \<lparr> turn_text = narrative torchStory, imageUrl = None,
                              choices = fourChoices \<rparr>,
       isStoryLoading = False, isImageLoading = False, isTypingComplete = True,
       isInventoryOpen = False, alerts = [] \<rparr>"
  by (simp add: settledCave_def caveSession_eq onTextComplete_def imageResolved_def)

lemma caveImage_eq: "caveImage = Some ''data:image/png;base64,Q0FWRQ==''"
  by (simp add: caveImage_def generateSceneImage_def)

lemma handleStartGame_no_turn:
  "currentTurn s = None \<Longrightarrow> currentTurn (fst (handleStartGame s)) = None"
  by (simp add: handleStartGame_def Let_def processTurn_begin_def)

lemma storySchema_fallback:
  "storySchema fallback =
     Some \<lparr> narrative = fallbackNarrative, hpChange = 0, inventoryAdd = [],
            inventoryRemove = [], visualDescription = ''foggy mystery void'',
            isGameOver = False,
            story_choices =
              [ \<lparr> choice_id = ''retry'', choice_text = ''Intentar de nuevo'' \<rparr>,
                \<lparr> choice_id = ''wait'', choice_text = ''Esperar un momento'' \<rparr>,
                \<lparr> choice_id = ''run'', choice_text = ''Huir en p'' @ [CHR 0xE1] @ ''nico'' \<rparr>,
                \<lparr> choice_id = ''scream'',
                  choice_text = ''Gritar al vac'' @ [CHR 0xED] @ ''o'' \<rparr> ] \<rparr>"
  by (simp add: storySchema_def fallback_def getProp_def asChoice_def)

section \<open>The turn on values of the declared type\<close>

text \<open>
  On every value that conforms to the schema the turn does not throw, and what it
  stores is what the body on the declared type stores.
\<close>

lemma asString_Some: "asString x = Some t \<longleftrightarrow> x = JStr t"
  by (cases x) auto

lemma asInteger_Some: "asInteger x = Some n \<longleftrightarrow> x = JNum n"
  by (cases x) auto

lemma asBoolean_Some: "asBoolean x = Some b \<longleftrightarrow> x = JBool b"
  by (cases x) auto

lemma asArray_Some:
  "asArray f x = Some ys \<longleftrightarrow> (\<exists>vs. x = JArr vs \<and> those (map f vs) = Some ys)"
  by (cases x) auto

lemma those_map_Some: "those (map (\<lambda>x. Some (f x)) xs) = Some (map f xs)"
  by (induction xs) simp_all

lemma those_asString_JStr: "those (map (asString \<circ> JStr) xs) = Some xs"
  using those_map_Some [of "\<lambda>x. x" xs] by (simp add: comp_def)

lemma those_asString: "those (map asString vs) = Some ys \<Longrightarrow> vs = map JStr ys"
proof (induction vs arbitrary: ys)
  case Nil
  then show ?case by simp
next
  case (Cons v vs)
  then show ?case
    by (auto simp: asString_Some split: option.splits)
qed

lemma storySchema_members:
  assumes "storySchema v = Some r"
  shows "getProp ''narrative'' v = Some (JStr (narrative r))"
    and "getProp ''hpChange'' v = Some (JNum (hpChange r))"
    and "getProp ''inventoryAdd'' v = Some (JArr (map JStr (inventoryAdd r)))"
    and "getProp ''inventoryRemove'' v = Some (JArr (map JStr (inventoryRemove r)))"
    and "getProp ''visualDescription'' v = Some (JStr (visualDescription r))"
    and "getProp ''isGameOver'' v = Some (JBool (isGameOver r))"
    and "\<exists>vs. getProp ''choices'' v = Some (JArr vs)
           \<and> those (map asChoice vs) = Some (story_choices r)"
  using assms
  by (auto simp: storySchema_def asString_Some asInteger_Some asBoolean_Some asArray_Some
      dest: those_asString split: bind_splits)

lemma storySchema_no_throw: "storySchema v = Some r \<Longrightarrow> \<not> turnThrows inv0 v"
  using storySchema_members(2,3,4) [of v r]
  by (auto simp: turnThrows_def getProp_def)

lemma healthWritten_integer:
  "healthWritten h (Some (JNum n)) = Finite (of_int (min 100 (max 0 (h + n))))"
  by (simp add: healthWritten_def)

lemma asHealth_of_int: "asHealth (Finite (of_int k)) = Some k"
  by simp

lemma notPositive_of_int: "notPositive (Finite (of_int k)) \<longleftrightarrow> k \<le> 0"
  by simp

lemma arrayIncludes_JStr: "arrayIncludes (map JStr xs) (JStr x) \<longleftrightarrow> x \<in> set xs"
  by (auto simp: arrayIncludes_def)

lemma keptItems_strings:
  "keptItems inv0 (Some (JArr (map JStr removed))) = filter (\<lambda>item. item \<notin> set removed) inv0"
  by (simp add: keptItems_def arrayIncludes_JStr)

lemma pushMissingValues_strings:
  "pushMissingValues (map JStr xs) (map JStr ys) = map JStr (pushMissing xs ys)"
proof (induction ys arbitrary: xs)
  case Nil
  show ?case by simp
next
  case (Cons y ys)
  show ?case
    using Cons.IH [of xs] Cons.IH [of "xs @ [y]"]
    by (simp add: arrayIncludes_JStr)
qed

lemma processTurn_writes_conforming:
  assumes "storySchema v = Some r"
  shows "\<exists>vs. those (map asChoice vs) = Some (story_choices r)
    \<and> processTurn_writes args v =
      \<lparr> healthStored = Finite (of_int (newHp (currentHp args) r)),
        inventoryStored = map JStr (newInv (currentInv args) r),
        gameOverStored = (isGameOver r \<or> newHp (currentHp args) r \<le> 0),
        textStored = Some (JStr (narrative r)),
        choicesStored =
          (if isGameOver r \<or> newHp (currentHp args) r \<le> 0 then Some (JArr [])
           else Some (JArr vs)),
        imageRequested =
          (if \<not> (isGameOver r \<or> newHp (currentHp args) r \<le> 0) \<and> visualDescription r \<noteq> []
           then Some (JStr (visualDescription r)) else None) \<rparr>"
proof -
  obtain vs where vs: "getProp ''choices'' v = Some (JArr vs)"
      "those (map asChoice vs) = Some (story_choices r)"
    using storySchema_members(7) [OF assms] by blast
  have "processTurn_writes args v =
      \<lparr> healthStored = Finite (of_int (newHp (currentHp args) r)),
        inventoryStored = map JStr (newInv (currentInv args) r),
        gameOverStored = (isGameOver r \<or> newHp (currentHp args) r \<le> 0),
        textStored = Some (JStr (narrative r)),
        choicesStored =
          (if isGameOver r \<or> newHp (currentHp args) r \<le> 0 then Some (JArr [])
           else Some (JArr vs)),
        imageRequested =
          (if \<not> (isGameOver r \<or> newHp (currentHp args) r \<le> 0) \<and> visualDescription r \<noteq> []
           then Some (JStr (visualDescription r)) else None) \<rparr>"
    using vs(1) storySchema_members(1-6) [OF assms]
    by (simp add: processTurn_writes_def Let_def healthWritten_integer newHp_def newInv_def
        keptItems_strings pushMissingValues_strings)
  with vs(2) show ?thesis by blast
qed

lemma processTurn_resume_conforming:
  assumes "storySchema v = Some r"
  shows "processTurn_resume args v s
       = Some (processTurn_body (currentHp args) (currentInv args) r s)"
proof -
  obtain vs where vs: "those (map asChoice vs) = Some (story_choices r)"
    and w: "processTurn_writes args v =
      \<lparr> healthStored = Finite (of_int (newHp (currentHp args) r)),
        inventoryStored = map JStr (newInv (currentInv args) r),
        gameOverStored = (isGameOver r \<or> newHp (currentHp args) r \<le> 0),
        textStored = Some (JStr (narrative r)),
        choicesStored =
          (if isGameOver r \<or> newHp (currentHp args) r \<le> 0 then Some (JArr [])
           else Some (JArr vs)),
        imageRequested =
          (if \<not> (isGameOver r \<or> newHp (currentHp args) r \<le> 0) \<and> visualDescription r \<noteq> []
           then Some (JStr (visualDescription r)) else None) \<rparr>"
    using processTurn_writes_conforming [OF assms, of args] by blast
  have "storeWrites (processTurn_writes args v) s
      = Some (processTurn_body (currentHp args) (currentInv args) r s)"
    unfolding w
    by (simp add: storeWrites_def processTurn_body_def Let_def those_asString_JStr vs)
  then show ?thesis
    by (simp add: processTurn_resume_def storySchema_no_throw [OF assms])
qed

lemma processTurn_resume_throws:
  "turnThrows (currentInv args) v \<Longrightarrow>
     processTurn_resume args v s = Some (processTurn_catch s, None)"
  by (simp add: processTurn_resume_def)

section \<open>Sessions\<close>

lemma set_pushMissingValues: "set (pushMissingValues acc xs) = set acc \<union> set xs"
  by (induction xs arbitrary: acc) (auto simp: arrayIncludes_def)

lemma distinct_pushMissingValues:
  "distinct acc \<Longrightarrow> \<forall>x \<in> set xs. isPrimitive x \<Longrightarrow> distinct (pushMissingValues acc xs)"
  by (induction xs arbitrary: acc) (auto simp: arrayIncludes_def)

lemma distinct_keptItems: "distinct inv0 \<Longrightarrow> distinct (keptItems inv0 removed)"
  by (auto simp: keptItems_def split: option.splits js.splits)

lemma asHealth_clampHealth:
  "asHealth (clampHealth x) = Some h \<Longrightarrow> 0 \<le> h \<and> h \<le> 100"
  by (cases x) (auto split: if_splits simp: le_floor_iff floor_le_iff)

lemma storeWrites_fields:
  assumes "storeWrites w s = Some (s', req)"
  shows "asHealth (healthStored w) = Some (hp s')"
    and "inventoryStored w = map JStr (inventory s')"
    and "alerts s' = alerts s"
  using assms
  by (auto simp: storeWrites_def Let_def dest: those_asString
      split: bind_splits option.splits if_splits)

lemma processTurn_resume_kept:
  assumes "processTurn_resume args v s = Some (s', req)"
    and "distinct (inventory s)" "0 \<le> hp s" "hp s \<le> 100" "distinct (currentInv args)"
  shows "distinct (inventory s') \<and> 0 \<le> hp s' \<and> hp s' \<le> 100"
proof (cases "turnThrows (currentInv args) v")
  case True
  then have "s' = processTurn_catch s"
    using assms(1) by (simp add: processTurn_resume_def)
  then show ?thesis
    using assms by (simp add: processTurn_catch_def)
next
  case False
  then have w: "storeWrites (processTurn_writes args v) s = Some (s', req)"
    using assms(1) by (simp add: processTurn_resume_def)
  have h: "asHealth (clampHealth
      (case getProp ''hpChange'' v of
          None \<Rightarrow> NaN
        | Some JNull \<Rightarrow> Finite (of_int (currentHp args))
        | Some (JBool b) \<Rightarrow> Finite (of_int (currentHp args + (if b then 1 else 0)))
        | Some (JNum n) \<Rightarrow> Finite (of_int (currentHp args + n))
        | Some y \<Rightarrow> stringToNumber (decimal (currentHp args) @ toText y))) = Some (hp s')"
    using storeWrites_fields(1) [OF w]
    by (simp add: processTurn_writes_def Let_def healthWritten_def)
  define kept where "kept = map JStr (keptItems (currentInv args) (getProp ''inventoryRemove'' v))"
  define adds where
    "adds = (case getProp ''inventoryAdd'' v of Some (JArr items) \<Rightarrow> items | _ \<Rightarrow> [])"
  have i: "pushMissingValues kept adds = map JStr (inventory s')"
    using storeWrites_fields(2) [OF w]
    by (simp add: processTurn_writes_def Let_def kept_def adds_def)
  have "set adds \<subseteq> set (map JStr (inventory s'))"
    using set_pushMissingValues [of kept adds] unfolding i by blast
  then have p: "\<forall>x \<in> set adds. isPrimitive x"
    by auto
  have "distinct kept"
    using assms(5) by (simp add: kept_def distinct_map distinct_keptItems inj_on_def)
  then have "distinct (pushMissingValues kept adds)"
    using p by (rule distinct_pushMissingValues)
  then have "distinct (map JStr (inventory s'))"
    unfolding i .
  then have "distinct (inventory s')"
    by (simp add: distinct_map)
  then show ?thesis
    using asHealth_clampHealth [OF h] by simp
qed

text \<open>
  In every state of a session the inventory has no duplicates and the health lies
  between 0 and 100, and so do the inventory and the health that each awaited turn
  was called with.
\<close>

lemma session_kept: "session s calls \<Longrightarrow> wellKept s calls"
proof (induction rule: session.induct)
  case (mounted shuffled)
  show ?case by (simp add: wellKept_def initialApp_def INITIAL_HP_def)
next
  case (themePicked s calls t)
  then show ?case by (simp add: wellKept_def pickTheme_def)
next
  case (themeTyped s calls t)
  then show ?case by (simp add: wellKept_def typeTheme_def)
next
  case (gameStarted s calls s' call)
  then show ?case
    by (auto simp: wellKept_def handleStartGame_def Let_def processTurn_begin_def INITIAL_HP_def
        split: if_splits)
next
  case (choiceMade s calls c s' call)
  then show ?case
    by (auto simp: wellKept_def handleChoice_def processTurn_begin_def split: option.splits)
next
  case (storyArrived s calls args v s' req)
  then have "distinct (inventory s') \<and> 0 \<le> hp s' \<and> hp s' \<le> 100"
    using processTurn_resume_kept [of args v s s' req] by (simp add: wellKept_def)
  moreover have "set (remove1 args calls) \<subseteq> set calls"
    by (rule set_remove1_subset)
  ultimately show ?case
    using storyArrived.IH by (auto simp: wellKept_def)
next
  case (imageArrived s calls url)
  then show ?case by (simp add: wellKept_def imageResolved_def)
next
  case (imageFailed s calls)
  then show ?case by (simp add: wellKept_def imageRejected_def)
next
  case (textRevealed s calls)
  then show ?case by (simp add: wellKept_def onTextComplete_def)
next
  case (gameReset s calls shuffled)
  then show ?case by (simp add: wellKept_def resetGame_def INITIAL_HP_def)
qed

text \<open>The concrete sessions are sessions, from the mounted component on.\<close>

lemma asArray_strings: "asArray asString (JArr (map JStr xs)) = Some xs"
  using those_map_Some [of "\<lambda>x. x" xs] by (simp add: comp_def)

lemma asChoice_choiceJson: "asChoice (choiceJson c) = Some c"
  by (simp add: asChoice_def choiceJson_def getProp_def)

lemma asArray_choices: "asArray asChoice (JArr (map choiceJson cs)) = Some cs"
  using those_map_Some [of "\<lambda>x. x" cs] by (simp add: comp_def asChoice_choiceJson)

lemma storySchema_storyJson: "storySchema (storyJson r) = Some r"
  by (simp add: storySchema_def storyJson_def getProp_def asArray_strings asArray_choices
      del: asArray.simps)

lemma processTurn_resume_storyJson:
  "processTurn_resume args (storyJson r) s
     = Some (processTurn_body (currentHp args) (currentInv args) r s)"
  by (rule processTurn_resume_conforming [OF storySchema_storyJson])

lemma handleStartGame_picked:
  "trim t \<noteq> [] \<Longrightarrow>
     handleStartGame (pickTheme t s) = (started t s, Some (firstArgs (trim t)))"
  by (simp add: started_def handleStartGame_def pickTheme_def Let_def firstArgs_def)

lemma trim_themes: "trim ''Steampunk'' = ''Steampunk''" "trim ''Samurai Feudal'' = ''Samurai Feudal''"
  by (simp_all add: trim_def isWhiteSpace_def)

lemma session_first_turn:
  assumes "session s []" and "trim t \<noteq> []"
  shows "session (fst (processTurn_body INITIAL_HP [] r (started t s))) []"
proof -
  have "session (pickTheme t s) []"
    using assms(1) by (rule session.themePicked)
  then have "session (started t s) ([] @ awaited (Some (firstArgs (trim t))))"
    using handleStartGame_picked [OF assms(2)] by (rule session.gameStarted)
  then have a: "session (started t s) [firstArgs (trim t)]"
    by simp
  have m: "firstArgs (trim t) \<in> set [firstArgs (trim t)]"
    by simp
  have e: "processTurn_resume (firstArgs (trim t)) (storyJson r) (started t s)
      = Some (fst (processTurn_body INITIAL_HP [] r (started t s)),
              snd (processTurn_body INITIAL_HP [] r (started t s)))"
    by (simp add: processTurn_resume_storyJson firstArgs_def)
  have "session (fst (processTurn_body INITIAL_HP [] r (started t s)))
      (remove1 (firstArgs (trim t)) [firstArgs (trim t)])"
    by (rule session.storyArrived [OF a m e])
  then show ?thesis by simp
qed

lemma session_caveSession: "session caveSession []"
  unfolding caveSession_def
  by (rule session_first_turn [OF session.mounted]) (simp add: trim_themes)

lemma session_dojoSession: "session dojoSession []"
  unfolding dojoSession_def
  by (rule session_first_turn [OF session.gameReset [OF session_caveSession]])
     (simp add: trim_themes)

lemma session_stale_image: "session (imageResolved caveImage dojoSession) []"
  by (rule session.imageArrived [OF session_dojoSession])

lemma session_settledCave: "session settledCave []"
  unfolding settledCave_def
  by (rule session.textRevealed [OF session.imageArrived [OF session_caveSession]])

lemma handleChoice_settledCave:
  "handleChoice (hd fourChoices) settledCave = (processTurn_begin settledCave, Some choiceArgs)"
  by (simp add: settledCave_eq handleChoice_def choiceArgs_def processTurn_begin_def
      fourChoices_def torchStory_def)

lemma processTurn_resume_null:
  "processTurn_resume args JNull s = Some (processTurn_catch s, None)"
  by (simp add: processTurn_resume_def turnThrows_def)

lemma session_failed_turn: "session (processTurn_catch (processTurn_begin settledCave)) []"
proof -
  have "session (processTurn_begin settledCave) ([] @ awaited (Some choiceArgs))"
    using session_settledCave handleChoice_settledCave by (rule session.choiceMade)
  then have a: "session (processTurn_begin settledCave) [choiceArgs]"
    by simp
  have m: "choiceArgs \<in> set [choiceArgs]"
    by simp
  have "session (processTurn_catch (processTurn_begin settledCave))
      (remove1 choiceArgs [choiceArgs])"
    by (rule session.storyArrived [OF a m processTurn_resume_null])
  then show ?thesis by simp
qed

text \<open>
  A turn that does not throw shows no notice. The payload without
  \<^verbatim>\<open>inventoryRemove\<close> throws in a turn called with the torch, and runs the body
  in a first turn, whose inventory is empty.
\<close>

lemma processTurn_resume_no_notice:
  assumes "\<not> turnThrows (currentInv args) v" and "processTurn_resume args v s = Some (s', req)"
  shows "alerts s' = alerts s"
proof -
  have "storeWrites (processTurn_writes args v) s = Some (s', req)"
    using assms by (simp add: processTurn_resume_def)
  then show ?thesis by (rule storeWrites_fields(3))
qed

lemma keyPayload_first_turn:
  "\<not> turnThrows (currentInv (firstArgs ''Steampunk'')) keyPayload"
  "map_option (\<lambda>(s', req). (hp s', inventory s', mode s', req))
     (processTurn_resume (firstArgs ''Steampunk'') keyPayload
        (started ''Steampunk'' (initialApp shuffledPool)))
   = Some (95, [''key''], PLAYING, Some ''a rusty key'')"
proof -
  show n: "\<not> turnThrows (currentInv (firstArgs ''Steampunk'')) keyPayload"
    by (simp add: turnThrows_def firstArgs_def keyPayload_def getProp_def)
  have "processTurn_writes (firstArgs ''Steampunk'') keyPayload =
      \<lparr> healthStored = Finite 95, inventoryStored = [JStr ''key''], gameOverStored = False,
        textStored = Some (JStr ''Encuentras una llave.''),
        choicesStored = Some (JArr (map choiceJson fourChoices)),
        imageRequested = Some (JStr ''a rusty key'') \<rparr>"
    by (simp add: processTurn_writes_def Let_def firstArgs_def keyPayload_def getProp_def
        healthWritten_def keptItems_def arrayIncludes_def INITIAL_HP_def)
  then show "map_option (\<lambda>(s', req). (hp s', inventory s', mode s', req))
     (processTurn_resume (firstArgs ''Steampunk'') keyPayload
        (started ''Steampunk'' (initialApp shuffledPool)))
   = Some (95, [''key''], PLAYING, Some ''a rusty key'')"
    using n
    by (simp add: processTurn_resume_def storeWrites_def Let_def asArray_choices
        session_defs del: asArray.simps)
qed

section \<open>The story service\<close>

text \<open>
  Claim C2. When the underlying call throws, or yields a response with no text
  (undefined or empty), \<^verbatim>\<open>generateStorySegment\<close> returns the fixed fallback object
  instead of an error. The fallback conforms to the response schema: health change
  0, nothing added to or removed from the inventory, not a game over, the fog
  narrative, and the four recovery choices retry, wait, run and scream. The turn
  that receives it runs its body, not its \<^verbatim>\<open>catch\<close> block.
\<close>

theorem story_failure_fallback:
  "generateStorySegment JSON_parse Throws = fallback
   \<and> generateStorySegment JSON_parse (Response None) = fallback
   \<and> generateStorySegment JSON_parse (Response (Some [])) = fallback
   \<and> (\<exists>r. storySchema fallback = Some r
         \<and> hpChange r = 0 \<and> inventoryAdd r = [] \<and> inventoryRemove r = []
         \<and> isGameOver r = False \<and> narrative r = fallbackNarrative
         \<and> length (story_choices r) = 4
         \<and> map choice_id (story_choices r) = [''retry'', ''wait'', ''run'', ''scream'']
         \<and> processTurn_resume args fallback s
           = Some (processTurn_body (currentHp args) (currentInv args) r s))"
  using processTurn_resume_conforming [OF storySchema_fallback, of args s]
  by (simp add: generateStorySegment_def storySchema_fallback)

theorem story_failure_fallback_witness:
  "generateStorySegment Map.empty Throws = fallback
   \<and> generateStorySegment Map.empty (Response None) = fallback
   \<and> map_option hpChange (storySchema (generateStorySegment Map.empty Throws)) = Some 0
   \<and> map_option (length \<circ> story_choices) (storySchema (generateStorySegment Map.empty Throws))
     = Some 4
   \<and> map_option (mode \<circ> fst)
       (processTurn_resume choiceArgs (generateStorySegment Map.empty Throws)
          (processTurn_begin settledCave))
     = Some PLAYING"
proof -
  obtain r where r: "storySchema fallback = Some r" "hpChange r = 0"
      "length (story_choices r) = 4" "isGameOver r = False"
      "processTurn_resume choiceArgs fallback (processTurn_begin settledCave)
         = Some (processTurn_body (currentHp choiceArgs) (currentInv choiceArgs) r
                   (processTurn_begin settledCave))"
    using story_failure_fallback [of Map.empty choiceArgs "processTurn_begin settledCave"]
    by blast
  have g: "generateStorySegment Map.empty Throws = fallback"
          "generateStorySegment Map.empty (Response None) = fallback"
    using story_failure_fallback [of Map.empty] by simp_all
  show ?thesis
    using r g
    by (simp add: processTurn_body_def Let_def newHp_def choiceArgs_def settledCave_eq
        processTurn_begin_def)
qed

text \<open>
  Claim C3, as stated, fails: the payload \<^verbatim>\<open>{}\<close> parses as JSON and has none of
  the required members, yet \<^verbatim>\<open>generateStorySegment\<close> returns the empty object
  itself, not the fallback.
\<close>

theorem unchecked_payload_counterexample:
  "generateStorySegment [''{}'' \<mapsto> JObj []] (Response (Some ''{}'')) = JObj []
   \<and> storySchema (JObj []) = None
   \<and> generateStorySegment [''{}'' \<mapsto> JObj []] (Response (Some ''{}'')) \<noteq> fallback"
  by (simp add: generateStorySegment_def storySchema_def getProp_def fallback_def)

text \<open>
  Claim C3, amended. A text that does not parse as JSON yields the fallback; a
  non-empty text that parses is returned as the value it parses to, whether or not
  that value conforms to the response schema.
\<close>

theorem parsed_payload_returned:
  "(JSON_parse t = None \<longrightarrow> generateStorySegment JSON_parse (Response (Some t)) = fallback)
   \<and> (t \<noteq> [] \<and> JSON_parse t = Some v \<longrightarrow>
        generateStorySegment JSON_parse (Response (Some t)) = v)"
  by (simp add: generateStorySegment_def)

theorem parsed_payload_returned_witness:
  "generateStorySegment [''{}'' \<mapsto> JObj []] (Response (Some ''{'')) = fallback
   \<and> generateStorySegment [''{}'' \<mapsto> JObj []] (Response (Some ''{}'')) = JObj []"
  using parsed_payload_returned [of "[''{}'' \<mapsto> JObj []]" "''{''" JNull]
        parsed_payload_returned [of "[''{}'' \<mapsto> JObj []]" "''{}''" "JObj []"]
  by simp

section \<open>The turn\<close>

text \<open>
  Claim C4. For a story processed during play, the turn ends the game exactly when
  the response is marked as game over or the clamped new health is 0. Then the mode
  becomes GAMEOVER, the turn carries the narrative with no image and no choices,
  and no image request is issued. Otherwise the mode stays PLAYING and the turn
  carries the narrative and the choices of the response.
\<close>

theorem terminal_turn:
  "mode s = PLAYING \<Longrightarrow> processTurn_body h i r (processTurn_begin s) = (s', req) \<Longrightarrow>
     (mode s' = GAMEOVER \<longleftrightarrow> isGameOver r \<or> newHp h r = 0)
     \<and> (isGameOver r \<or> newHp h r = 0 \<longrightarrow>
          currentTurn s' = Some \<lparr> turn_text = narrative r, imageUrl = None, choices = [] \<rparr>
          \<and> req = None \<and> \<not> isImageLoading s')
     \<and> (\<not> (isGameOver r \<or> newHp h r = 0) \<longrightarrow>
          mode s' = PLAYING
          \<and> currentTurn s' = Some \<lparr> turn_text = narrative r, imageUrl = None,
                                     choices = story_choices r \<rparr>)"
  by (auto simp: processTurn_body_def processTurn_begin_def Let_def newHp_def split: if_splits)

theorem terminal_turn_witness:
  "mode settledCave = PLAYING
   \<and> \<not> isGameOver woundStory
   \<and> newHp 20 woundStory = 0
   \<and> mode (fst (processTurn_body 20 [] woundStory (processTurn_begin settledCave))) = GAMEOVER
   \<and> currentTurn (fst (processTurn_body 20 [] woundStory (processTurn_begin settledCave)))
     = Some \<lparr> turn_text = narrative woundStory, imageUrl = None, choices = [] \<rparr>
   \<and> snd (processTurn_body 20 [] woundStory (processTurn_begin settledCave)) = None
   \<and> newHp 70 woundStory = 45
   \<and> mode (fst (processTurn_body 70 [] woundStory (processTurn_begin settledCave))) = PLAYING"
proof -
  have m: "mode settledCave = PLAYING"
    by (simp add: settledCave_eq)
  have a: "newHp 20 woundStory = 0" "newHp 70 woundStory = 45" "\<not> isGameOver woundStory"
    by (simp_all add: newHp_def woundStory_def)
  show ?thesis
    using m a
      terminal_turn [OF m, of 20 "[]" woundStory
        "fst (processTurn_body 20 [] woundStory (processTurn_begin settledCave))"
        "snd (processTurn_body 20 [] woundStory (processTurn_begin settledCave))"]
      terminal_turn [OF m, of 70 "[]" woundStory
        "fst (processTurn_body 70 [] woundStory (processTurn_begin settledCave))"
        "snd (processTurn_body 70 [] woundStory (processTurn_begin settledCave))"]
    by simp
qed

text \<open>
  Claim C5. Whatever the current health and the health change of the response, the
  health stored by a turn is \<open>min 100 (max 0 (currentHp + hpChange))\<close>, and it lies
  between 0 and 100.
\<close>

theorem health_clamped:
  "hp (fst (processTurn_body h i r s)) = min 100 (max 0 (h + hpChange r))
   \<and> 0 \<le> hp (fst (processTurn_body h i r s))
   \<and> hp (fst (processTurn_body h i r s)) \<le> 100"
  by (simp add: processTurn_body_def Let_def newHp_def)

theorem health_clamped_witness:
  "hp (fst (processTurn_body 20 [] woundStory caveSession)) = 0
   \<and> hp (fst (processTurn_body 90 [] (woundStory\<lparr> hpChange := 1000 \<rparr>) caveSession)) = 100"
  using health_clamped [of 20 "[]" woundStory caveSession]
        health_clamped [of 90 "[]" "woundStory\<lparr> hpChange := 1000 \<rparr>" caveSession]
  by (simp add: woundStory_def)

text \<open>
  Claim C6. The inventory stored by a turn is the one the loop of the source
  builds, and that list is the specified one: the items not listed in
  \<^verbatim>\<open>inventoryRemove\<close>, in their prior order, followed by the items of
  \<^verbatim>\<open>inventoryAdd\<close> that are not among them, each once, in the order listed. As a
  set it is the inventory minus the removed items, union the added ones; no
  retained item is appended again; and listing an item that the inventory does not
  hold among the removals changes nothing.
\<close>

theorem inventory_update:
  "inventory (fst (processTurn_body h items r s)) = newInv items r
   \<and> newInv items r = spec_newInventory items (inventoryRemove r) (inventoryAdd r)
   \<and> set (newInv items r) = (set items - set (inventoryRemove r)) \<union> set (inventoryAdd r)
   \<and> (\<exists>added. newInv items r = filter (\<lambda>x. x \<notin> set (inventoryRemove r)) items @ added
         \<and> distinct added
         \<and> set added \<inter> set (filter (\<lambda>x. x \<notin> set (inventoryRemove r)) items) = {})
   \<and> (x \<notin> set items \<longrightarrow>
        newInv items (r\<lparr> inventoryRemove := x # inventoryRemove r \<rparr>) = newInv items r)"
proof -
  have a: "inventory (fst (processTurn_body h items r s)) = newInv items r"
    by (simp add: processTurn_body_def Let_def)
  have b: "\<exists>added. newInv items r = filter (\<lambda>x. x \<notin> set (inventoryRemove r)) items @ added
         \<and> distinct added
         \<and> set added \<inter> set (filter (\<lambda>x. x \<notin> set (inventoryRemove r)) items) = {}"
    unfolding newInv_def pushMissing_eq
    by (rule exI [of _ "firstOccurrences
          (filter (\<lambda>x. x \<notin> set (filter (\<lambda>x. x \<notin> set (inventoryRemove r)) items))
             (inventoryAdd r))"])
       (auto simp: distinct_firstOccurrences set_firstOccurrences)
  have c: "x \<notin> set items \<longrightarrow>
        newInv items (r\<lparr> inventoryRemove := x # inventoryRemove r \<rparr>) = newInv items r"
    by (simp add: newInv_def filter_absent)
  show ?thesis using a b c newInv_spec [of items r] set_newInv [of items r] by blast
qed

theorem inventory_update_witness:
  "newInv [''a'', ''b'', ''c'']
     (torchStory\<lparr> inventoryAdd := [''b'', ''d'', ''a'', ''d''], inventoryRemove := [''a''] \<rparr>)
   = [''b'', ''c'', ''d'', ''a'']
   \<and> ''z'' \<notin> set [''a'', ''b'', ''c'']
   \<and> newInv [''a'', ''b'', ''c'']
     (torchStory\<lparr> inventoryAdd := [''b'', ''d'', ''a'', ''d''], inventoryRemove := [''z'', ''a''] \<rparr>)
   = [''b'', ''c'', ''d'', ''a'']"
  using inventory_update [of 0 "[''a'', ''b'', ''c'']"
      "torchStory\<lparr> inventoryAdd := [''b'', ''d'', ''a'', ''d''], inventoryRemove := [''a''] \<rparr>"
      caveSession "''z''"]
  by (simp add: spec_newInventory_def firstOccurrences_def)

text \<open>
  Claim C7. An inventory without duplicates stays without duplicates, whatever
  items the response adds and removes, also when the added items repeat or overlap
  the inventory or the removed items.
\<close>

theorem inventory_distinct:
  "distinct items \<Longrightarrow>
     distinct (newInv items r) \<and> distinct (inventory (fst (processTurn_body h items r s)))"
  by (simp add: processTurn_body_def Let_def distinct_newInv)

theorem inventory_distinct_witness:
  "distinct [''a'', ''b'', ''c'']
   \<and> distinct (newInv [''a'', ''b'', ''c'']
       (torchStory\<lparr> inventoryAdd := [''b'', ''d'', ''a'', ''d''], inventoryRemove := [''a''] \<rparr>))"
proof -
  have d: "distinct [''a'', ''b'', ''c'']" by simp
  show ?thesis
    using d inventory_distinct [OF d, of
      "torchStory\<lparr> inventoryAdd := [''b'', ''d'', ''a'', ''d''], inventoryRemove := [''a''] \<rparr>"
      0 caveSession]
    by simp
qed




section \<open>The image continuation and the choices\<close>

text \<open>
  Claim C9. The choices are visible exactly when the story is not pending, the text
  reveal is complete and the image is not pending. A failed image call yields no
  URL; whatever the image continuation receives, it clears the pending flag, so
  with the story published the choices are visible once the text reveal has
  completed, in either order of the two events; and the turn's image stays absent
  after a failure.
\<close>

theorem choices_visible:
  "(areChoicesVisible s \<longleftrightarrow> \<not> isStoryLoading s \<and> isTypingComplete s \<and> \<not> isImageLoading s)
   \<and> generateSceneImage ImageThrows = None
   \<and> (\<not> isStoryLoading s \<longrightarrow>
        areChoicesVisible (onTextComplete (imageResolved url s))
        \<and> areChoicesVisible (imageResolved url (onTextComplete s))
        \<and> areChoicesVisible (onTextComplete (imageRejected s))
        \<and> areChoicesVisible (imageRejected (onTextComplete s)))
   \<and> (currentTurn s = Some t \<and> imageUrl t = None \<longrightarrow>
        currentTurn (imageResolved (generateSceneImage ImageThrows) s) = Some t
        \<and> currentTurn (imageRejected s) = Some t)"
  by (simp add: areChoicesVisible_def onTextComplete_def imageResolved_def imageRejected_def
      generateSceneImage_def)

theorem choices_visible_witness:
  "\<not> isStoryLoading caveSession
   \<and> \<not> areChoicesVisible (onTextComplete caveSession)
   \<and> areChoicesVisible (onTextComplete (imageResolved (generateSceneImage ImageThrows) caveSession))
   \<and> areChoicesVisible (imageResolved (generateSceneImage ImageThrows) (onTextComplete caveSession))
   \<and> currentTurn (imageResolved (generateSceneImage ImageThrows) caveSession)
     = Some \<lparr> turn_text = narrative torchStory, imageUrl = None, choices = fourChoices \<rparr>"
  using choices_visible [of caveSession "generateSceneImage ImageThrows"
      "\<lparr> turn_text = narrative torchStory, imageUrl = None, choices = fourChoices \<rparr>"]
        choices_visible [of "onTextComplete caveSession"]
  by (simp add: caveSession_eq onTextComplete_def)

text \<open>
  Claim C10. When no turn is live as the image result arrives, the continuation
  leaves the current turn absent, on the \<^verbatim>\<open>then\<close> path and on the \<^verbatim>\<open>catch\<close>
  path alike.
\<close>

theorem late_image_after_clear:
  "currentTurn s = None \<Longrightarrow>
     currentTurn (imageResolved url s) = None \<and> currentTurn (imageRejected s) = None"
  by (simp add: imageResolved_def imageRejected_def)

theorem late_image_after_clear_witness:
  "currentTurn (resetGame shuffledPool caveSession) = None
   \<and> currentTurn (imageResolved caveImage (resetGame shuffledPool caveSession)) = None
   \<and> currentTurn (imageRejected (resetGame shuffledPool caveSession)) = None"
proof -
  have c: "currentTurn (resetGame shuffledPool caveSession) = None"
    by (simp add: resetGame_def)
  show ?thesis using c late_image_after_clear [OF c, of caveImage] by simp
qed

text \<open>
  Claim C1, as stated, fails. The cave turn is published and its image requested;
  before the image arrives the user resets and starts a second game, whose dojo
  turn is published. The image of the cave request then arrives and is written
  into the dojo turn, which is not the turn it was requested for.
\<close>

theorem stale_image_counterexample:
  "session dojoSession []
   \<and> snd (processTurn_body INITIAL_HP [] torchStory (started ''Steampunk'' (initialApp shuffledPool)))
     = Some ''a dark cave lit by a torch''
   \<and> currentTurn caveSession
     = Some \<lparr> turn_text = narrative torchStory, imageUrl = None, choices = fourChoices \<rparr>
   \<and> currentTurn dojoSession
     = Some \<lparr> turn_text = narrative dojoStory, imageUrl = None, choices = fourChoices \<rparr>
   \<and> narrative torchStory \<noteq> narrative dojoStory
   \<and> currentTurn (imageResolved caveImage dojoSession)
     = Some \<lparr> turn_text = narrative dojoStory,
              imageUrl = Some ''data:image/png;base64,Q0FWRQ=='', choices = fourChoices \<rparr>
   \<and> currentTurn (imageResolved caveImage dojoSession) \<noteq> currentTurn dojoSession"
  by (rule conjI [OF session_dojoSession])
     (simp add: caveSession_eq dojoSession_eq caveImage_eq
        imageResolved_def session_defs torchStory_def dojoStory_def)

text \<open>
  Claim C1, amended. An image result never creates a turn: when no turn is live as
  it arrives (after a reset, and after the start of a new game until its story is
  published) the current turn stays absent. When a turn is live, the result is
  written into the image of that live turn, whichever turn it is, and its text and
  choices are kept; no comparison is made with the turn the image was requested
  for. Health, inventory and mode are untouched and the image is no longer pending.
\<close>

theorem late_image_patches_live_turn:
  "(currentTurn s = None \<longrightarrow> currentTurn (imageResolved url s) = None)
   \<and> (currentTurn s = Some t \<longrightarrow>
        currentTurn (imageResolved url s) = Some (t\<lparr> imageUrl := url \<rparr>))
   \<and> currentTurn (imageResolved url (resetGame shuffled s)) = None
   \<and> currentTurn (imageResolved url (started th (resetGame shuffled s))) = None
   \<and> currentTurn (imageRejected s) = currentTurn s
   \<and> hp (imageResolved url s) = hp s
   \<and> inventory (imageResolved url s) = inventory s
   \<and> mode (imageResolved url s) = mode s
   \<and> \<not> isImageLoading (imageResolved url s)"
proof -
  have "currentTurn (pickTheme th (resetGame shuffled s)) = None"
    by (simp add: pickTheme_def resetGame_def)
  then have "currentTurn (started th (resetGame shuffled s)) = None"
    unfolding started_def by (rule handleStartGame_no_turn)
  then show ?thesis
    by (simp add: imageResolved_def imageRejected_def resetGame_def)
qed

theorem late_image_patches_live_turn_witness:
  "currentTurn (resetGame shuffledPool caveSession) = None
   \<and> currentTurn (imageResolved caveImage (resetGame shuffledPool caveSession)) = None
   \<and> currentTurn dojoSession
     = Some \<lparr> turn_text = narrative dojoStory, imageUrl = None, choices = fourChoices \<rparr>
   \<and> currentTurn (imageResolved caveImage dojoSession)
     = Some \<lparr> turn_text = narrative dojoStory, imageUrl = caveImage, choices = fourChoices \<rparr>"
  using late_image_patches_live_turn [of "resetGame shuffledPool caveSession" caveImage
          "\<lparr> turn_text = [], imageUrl = None, choices = [] \<rparr>" shuffledPool "[]"]
        late_image_patches_live_turn [of dojoSession caveImage
          "\<lparr> turn_text = narrative dojoStory, imageUrl = None, choices = fourChoices \<rparr>"
          shuffledPool "[]"]
  by (simp add: dojoSession_eq resetGame_def)

end
